theory Spec2Isabelle
  imports Main "HOL-Library.Sublist" "HOL-Library.Multiset"
begin

section \<open>Data model (models/models.go)\<close>

text \<open>
  Go strings are byte sequences; \<open>string\<close> is a list of 8-bit characters, so \<open>length\<close>
  is Go's \<open>len\<close>.
\<close>

record UserProfile =
  NSID :: string
  DisplayName :: string
  Bio :: string
  ProfilePicture :: string
  ProfileBanner :: string
  Theme :: string
  PrimaryColor :: string
  SecondaryColor :: string
  UpdatedAt :: string

record RequestPayload =
  Repo :: string
  Profile :: UserProfile
  BearerToken :: string

section \<open>Go errors and library helpers\<close>

text \<open>
  A Go \<open>error\<close> value: \<open>errors.New\<close> and \<open>fmt.Errorf\<close> without \<open>%w\<close> give an
  \<open>errorString\<close>; \<open>fmt.Errorf\<close> with \<open>%w\<close> gives a \<open>wrapError\<close> that keeps the
  formatted text and the wrapped error. A nil error is \<open>None\<close> of \<open>go_error option\<close>.
\<close>

datatype go_error = errorString string | wrapError string go_error

fun Error :: "go_error \<Rightarrow> string" where
  "Error (errorString s) = s"
| "Error (wrapError s e) = s"

text \<open>\<open>strings.Join(elems, sep)\<close>.\<close>

fun strings_Join :: "string list \<Rightarrow> string \<Rightarrow> string" where
  "strings_Join [] sep = []"
| "strings_Join [x] sep = x"
| "strings_Join (x # y # ys) sep = x @ sep @ strings_Join (y # ys) sep"

section \<open>Validator (handler/handler.go, validateProfile)\<close>

text \<open>
  \<open>time.Parse(time.RFC3339, s)\<close> belongs to the Go standard library; the validator only
  looks at whether it returned an error, so it is a parameter \<open>parse_ok\<close> that is true
  exactly when the returned error is nil. The log calls have no effect on the result.
\<close>

definition validateProfile :: "(string \<Rightarrow> bool) \<Rightarrow> UserProfile \<Rightarrow> go_error option" where
  "validateProfile parse_ok profile =
    (let validationErrors = [];
         validationErrors =
           (if NSID profile \<noteq> ''social.shareframe.profile''
            then validationErrors @ [''invalid NSID: only social.shareframe.profile is allowed'']
            else validationErrors);
         validationErrors =
           (if DisplayName profile = ''''
            then validationErrors @ [''displayName must be present'']
            else validationErrors);
         validationErrors =
           (if length (Bio profile) > 256
            then validationErrors @ [''bio must be 256 characters or fewer'']
            else validationErrors);
         validationErrors =
           (if Theme profile \<noteq> '''' \<and> Theme profile \<noteq> ''light''
               \<and> Theme profile \<noteq> ''dark'' \<and> Theme profile \<noteq> ''custom''
            then validationErrors @ [''theme must be light, dark, or custom'']
            else validationErrors);
         validationErrors =
           (if \<not> parse_ok (UpdatedAt profile)
            then validationErrors @ [''invalid datetime format for updatedAt'']
            else validationErrors)
     in if length validationErrors > 0
        then Some (errorString (''profile validation failed: '' @ strings_Join validationErrors ''; ''))
        else None)"

text \<open>
  The five \<open>if\<close> statements of \<open>validateProfile\<close> in handler.go (lines 24 to 38),
  transcribed in their order: the condition of each and the message it appends. The table
  restates the code, not the specification; \<open>validateProfile\<close> above does not use it.
\<close>

definition rule_table :: "(string \<Rightarrow> bool) \<Rightarrow> UserProfile \<Rightarrow> (bool \<times> string) list" where
  "rule_table parse_ok p =
    [(NSID p \<noteq> ''social.shareframe.profile'',
        ''invalid NSID: only social.shareframe.profile is allowed''),
     (DisplayName p = '''', ''displayName must be present''),
     (256 < length (Bio p), ''bio must be 256 characters or fewer''),
     (Theme p \<notin> {'''', ''light'', ''dark'', ''custom''}, ''theme must be light, dark, or custom''),
     (\<not> parse_ok (UpdatedAt p), ''invalid datetime format for updatedAt'')]"

definition violated_reasons :: "(string \<Rightarrow> bool) \<Rightarrow> UserProfile \<Rightarrow> string list" where
  "violated_reasons parse_ok p = map snd (filter fst (rule_table parse_ok p))"

section \<open>Format checks of the second validator (package handler, second variant)\<close>

text \<open>
  The repository holds a second variant of package handler (the second document of
  src/dynamodb/dynamo_test.go). Its \<open>validateProfile\<close> checks the two URLs with
  \<open>isValidURL\<close> and the two colours with \<open>isValidHexColor\<close>, which match the
  compiled patterns \<open>urlRegex\<close> and \<open>hexColorRegex\<close>.

  Go's \<open>regexp\<close> package is modelled by regular expressions over bytes with their
  language, and \<open>MatchString\<close> by matching with derivatives. Both patterns are anchored
  by \<open>^\<close> and \<open>$\<close> (without the multi-line flag \<open>$\<close> is the end of the text), so
  \<open>MatchString\<close> is a match of the whole string. \<open>.\<close> matches every character but
  the newline; on bytes, every byte but \<open>0x0A\<close>.
\<close>

datatype regexp =
    NoMatch
  | EmptyString
  | CharClass "char list"
  | AnyCharNotNL
  | Alternate regexp regexp
  | Concat regexp regexp
  | Star regexp

fun lang :: "regexp \<Rightarrow> string set" where
  "lang NoMatch = {}"
| "lang EmptyString = {[]}"
| "lang (CharClass cs) = {[c] | c. c \<in> set cs}"
| "lang AnyCharNotNL = {[c] | c. c \<noteq> CHR 0x0A}"
| "lang (Alternate r s) = lang r \<union> lang s"
| "lang (Concat r s) = {u @ v | u v. u \<in> lang r \<and> v \<in> lang s}"
| "lang (Star r) = {concat ws | ws. \<forall>w \<in> set ws. w \<in> lang r}"

fun nullable :: "regexp \<Rightarrow> bool" where
  "nullable NoMatch = False"
| "nullable EmptyString = True"
| "nullable (CharClass cs) = False"
| "nullable AnyCharNotNL = False"
| "nullable (Alternate r s) = (nullable r \<or> nullable s)"
| "nullable (Concat r s) = (nullable r \<and> nullable s)"
| "nullable (Star r) = True"

fun deriv :: "char \<Rightarrow> regexp \<Rightarrow> regexp" where
  "deriv c NoMatch = NoMatch"
| "deriv c EmptyString = NoMatch"
| "deriv c (CharClass cs) = (if c \<in> set cs then EmptyString else NoMatch)"
| "deriv c AnyCharNotNL = (if c \<noteq> CHR 0x0A then EmptyString else NoMatch)"
| "deriv c (Alternate r s) = Alternate (deriv c r) (deriv c s)"
| "deriv c (Concat r s) =
     (if nullable r then Alternate (Concat (deriv c r) s) (deriv c s)
      else Concat (deriv c r) s)"
| "deriv c (Star r) = Concat (deriv c r) (Star r)"

fun MatchString :: "regexp \<Rightarrow> string \<Rightarrow> bool" where
  "MatchString r [] = nullable r"
| "MatchString r (c # cs) = MatchString (deriv c r) cs"

text \<open>The operators \<open>?\<close> and \<open>+\<close>, and a literal string.\<close>

definition optional :: "regexp \<Rightarrow> regexp" where
  "optional r = Alternate r EmptyString"

definition one_or_more :: "regexp \<Rightarrow> regexp" where
  "one_or_more r = Concat r (Star r)"

fun literal :: "string \<Rightarrow> regexp" where
  "literal [] = EmptyString"
| "literal (c # cs) = Concat (CharClass [c]) (literal cs)"

text \<open>
  \<^verbatim>\<open>^#(?:[0-9a-fA-F]{3}){1,2}$\<close>: the group of three hex digits once or twice.
\<close>

definition hex_digit :: regexp where
  "hex_digit = CharClass ''0123456789abcdefABCDEF''"

definition hexColorRegex :: regexp where
  "hexColorRegex =
     Concat (literal ''#'')
       (Concat (Concat hex_digit (Concat hex_digit hex_digit))
               (optional (Concat hex_digit (Concat hex_digit hex_digit))))"

text \<open>
  \<^verbatim>\<open>^(https?://)?([a-zA-Z0-9.-]+)(:[0-9]+)?(/.*)?$\<close>
\<close>

definition urlRegex :: regexp where
  "urlRegex =
     Concat (optional (Concat (literal ''http'')
                         (Concat (optional (literal ''s'')) (literal ''://''))))
       (Concat (one_or_more
                  (CharClass ''abcdefghijklmnopqrstuvwxyzABCDEFGHIJKLMNOPQRSTUVWXYZ0123456789.-''))
          (Concat (optional (Concat (literal '':'') (one_or_more (CharClass ''0123456789''))))
                  (optional (Concat (literal ''/'') (Star AnyCharNotNL)))))"

definition isValidURL :: "string \<Rightarrow> bool" where
  "isValidURL url = MatchString urlRegex url"

definition isValidHexColor :: "string \<Rightarrow> bool" where
  "isValidHexColor color = MatchString hexColorRegex color"

section \<open>Expression Builder (dynamodb package, buildUpdateExpression)\<close>

datatype AttributeValue = AttributeValueMemberS string

text \<open>
  The map literal \<open>fields\<close> of the source (here \<open>fields_map\<close>), its entries in the
  order they are written. The keys are pairwise different, so the list is the map.
\<close>

definition fields_map :: "UserProfile \<Rightarrow> (string \<times> string) list" where
  "fields_map profile =
    [(''DisplayName'', DisplayName profile),
     (''Bio'', Bio profile),
     (''ProfilePicture'', ProfilePicture profile),
     (''ProfileBanner'', ProfileBanner profile),
     (''Theme'', Theme profile),
     (''PrimaryColor'', PrimaryColor profile),
     (''SecondaryColor'', SecondaryColor profile)]"

text \<open>
  One iteration of \<open>for field, value := range fields\<close>, on the pair of local variables
  \<open>(updateParts, exprValues)\<close>.
\<close>

definition range_body ::
  "string \<times> string \<Rightarrow> string list \<times> (string \<rightharpoonup> AttributeValue)
     \<Rightarrow> string list \<times> (string \<rightharpoonup> AttributeValue)" where
  "range_body entry st =
    (case entry of (field, value) \<Rightarrow>
       (case st of (updateParts, exprValues) \<Rightarrow>
          if value \<noteq> ''''
          then (updateParts @ [field @ '' = :'' @ field],
                exprValues(('':'' @ field) \<mapsto> AttributeValueMemberS value))
          else (updateParts, exprValues)))"

text \<open>
  Go leaves the order in which \<open>range\<close> visits a map unspecified (the runtime randomises
  it); it visits every entry once. The order is the parameter \<open>map_range\<close>, which
  rearranges the entries of the literal; \<open>now\<close> is
  \<open>time.Now().Format(time.RFC3339)\<close>. \<open>len(exprValues)\<close> is \<open>card (dom exprValues)\<close>.
\<close>

definition buildUpdateExpression ::
  "((string \<times> string) list \<Rightarrow> (string \<times> string) list) \<Rightarrow> string \<Rightarrow> UserProfile
     \<Rightarrow> string \<times> (string \<rightharpoonup> AttributeValue)" where
  "buildUpdateExpression map_range now profile =
    (case fold range_body (map_range (fields_map profile)) ([], Map.empty) of
       (updateParts, exprValues) \<Rightarrow>
         (let exprValues = exprValues('':UpdatedAt'' \<mapsto> AttributeValueMemberS now);
              updateParts = updateParts @ [''UpdatedAt = :UpdatedAt''];
              updateExpr = strings_Join updateParts '', ''
          in (updateExpr, exprValues)))"

text \<open>What the runtime may do: visit every entry of the map exactly once.\<close>

definition visits_each_once ::
  "((string \<times> string) list \<Rightarrow> (string \<times> string) list) \<Rightarrow> UserProfile \<Rightarrow> bool" where
  "visits_each_once map_range profile \<longleftrightarrow>
     mset (map_range (fields_map profile)) = mset (fields_map profile)"

text \<open>The entries of \<open>fields\<close> with a non-empty value, and the clause of an entry.\<close>

definition populated :: "UserProfile \<Rightarrow> (string \<times> string) list" where
  "populated profile = filter (\<lambda>entry. snd entry \<noteq> '''') (fields_map profile)"

definition clause :: "string \<times> string \<Rightarrow> string" where
  "clause entry = fst entry @ '' = :'' @ fst entry"

section \<open>Effects\<close>

record UpdateItemInput =
  TableName :: string
  Key :: "(string \<times> AttributeValue) list"
  UpdateExpression :: string
  ExpressionAttributeValues :: "string \<rightharpoonup> AttributeValue"
  ReturnValues :: string

record HttpRequest =
  Method :: string
  URL :: string
  Header :: "(string \<times> string) list"
  Body :: string

record HttpResponse =
  StatusCode :: nat
  Status :: string

record PutRecordBody =
  body_repo :: string
  body_collection :: string
  body_rkey :: string
  body_validate :: bool
  body_record :: UserProfile

text \<open>
  The trace of one invocation, oldest event first: the POST sent to the record service, the
  return of \<open>updateProfileInATProtocol\<close> with its error, the entry into
  \<open>UpdateUserInDynamoDB\<close> with its user id, and the \<open>UpdateItem\<close> operation sent to the
  store.
\<close>

datatype Event =
    ATProtocolPost HttpRequest
  | ATProtocolReturned "go_error option"
  | DynamoInvoked string
  | DynamoUpdateItem UpdateItemInput

text \<open>
  Everything outside the repository that an invocation consults: the AWS configuration
  loader, the store's \<open>UpdateItem\<close> (only its error is used), the standard library's time
  parser and clock, the map iteration order, the UUID generator, the JSON encoder, the
  request constructor and the HTTP client.
\<close>

record Env =
  config_LoadDefaultConfig :: "go_error option"
  dynamodb_UpdateItem :: "UpdateItemInput \<Rightarrow> go_error option"
  time_Parse_RFC3339 :: "string \<Rightarrow> bool"
  time_Now_RFC3339 :: string
  runtime_map_range :: "(string \<times> string) list \<Rightarrow> (string \<times> string) list"
  uuid_New :: string
  json_Marshal :: "PutRecordBody \<Rightarrow> go_error + string"
  http_NewRequest_err :: "go_error option"
  http_Do :: "HttpRequest \<Rightarrow> go_error + HttpResponse"

section \<open>Secondary Store Client (dynamodb package)\<close>

record DynamoClient =
  Client :: "UpdateItemInput \<Rightarrow> go_error option"

definition NewDynamoClient :: "Env \<Rightarrow> go_error + DynamoClient" where
  "NewDynamoClient env =
    (case config_LoadDefaultConfig env of
       Some err \<Rightarrow> Inl (wrapError (''failed to load AWS SDK config: '' @ Error err) err)
     | None \<Rightarrow> Inr \<lparr>Client = dynamodb_UpdateItem env\<rparr>)"

definition tableName :: string where
  "tableName = ''Users''"

definition UpdateUserInDynamoDB ::
  "DynamoClient \<Rightarrow> Env \<Rightarrow> string \<Rightarrow> UserProfile \<Rightarrow> Event list
     \<Rightarrow> go_error option \<times> Event list" where
  "UpdateUserInDynamoDB d env userID profile tr0 =
    (let tr = tr0 @ [DynamoInvoked userID] in
     if userID = '''' then (Some (errorString ''userID cannot be empty''), tr)
     else
       (case buildUpdateExpression (runtime_map_range env) (time_Now_RFC3339 env) profile of
          (updateExpression, exprValues) \<Rightarrow>
            if card (dom exprValues) = 1
            then (Some (errorString ''no valid fields provided to update''), tr)
            else
              (let input = \<lparr>TableName = tableName,
                            Key = [(''UserId'', AttributeValueMemberS userID)],
                            UpdateExpression = ''SET '' @ updateExpression,
                            ExpressionAttributeValues = exprValues,
                            ReturnValues = ''UPDATED_NEW''\<rparr>;
                   tr = tr @ [DynamoUpdateItem input]
               in (case Client d input of
                     Some err \<Rightarrow>
                       (Some (wrapError (''failed to update user in DynamoDB: '' @ Error err) err), tr)
                   | None \<Rightarrow> (None, tr)))))"

section \<open>Record Service Client (handler/handler.go, updateProfileInATProtocol)\<close>

definition updateProfileInATProtocol ::
  "Env \<Rightarrow> string \<Rightarrow> UserProfile \<Rightarrow> string \<Rightarrow> bool \<Rightarrow> Event list
     \<Rightarrow> (string \<times> go_error option) \<times> Event list" where
  "updateProfileInATProtocol env repo profile bearerToken validate tr =
    (let updateURL = ''https://shareframe.social/xrpc/com.atproto.repo.putRecord'';
         rkey = uuid_New env
     in case json_Marshal env \<lparr>body_repo = repo,
                               body_collection = ''social.shareframe.profile'',
                               body_rkey = rkey,
                               body_validate = validate,
                               body_record = profile\<rparr> of
          Inl err \<Rightarrow> (('''', Some err), tr @ [ATProtocolReturned (Some err)])
        | Inr body \<Rightarrow>
            (case http_NewRequest_err env of
               Some err \<Rightarrow> (('''', Some err), tr @ [ATProtocolReturned (Some err)])
             | None \<Rightarrow>
                 (let req = \<lparr>Method = ''POST'', URL = updateURL,
                             Header = [(''Content-Type'', ''application/json''),
                                       (''Authorization'', ''Bearer '' @ bearerToken)],
                             Body = body\<rparr>;
                      tr = tr @ [ATProtocolPost req]
                  in case http_Do env req of
                       Inl err \<Rightarrow> (('''', Some err), tr @ [ATProtocolReturned (Some err)])
                     | Inr resp \<Rightarrow>
                         if StatusCode resp \<noteq> 200
                         then (let err = errorString (''failed to update profile: '' @ Status resp)
                               in (('''', Some err), tr @ [ATProtocolReturned (Some err)]))
                         else ((''Profile successfully updated'', None),
                               tr @ [ATProtocolReturned None]))))"

section \<open>Orchestrator (handler/handler.go, HandleRequest)\<close>

text \<open>
  The result is the payload map, the invocation-level error and the trace of the effects of
  the invocation.
\<close>

definition HandleRequest ::
  "Env \<Rightarrow> RequestPayload \<Rightarrow> (string \<rightharpoonup> string) \<times> go_error option \<times> Event list" where
  "HandleRequest env request =
    (case NewDynamoClient env of
       Inl err \<Rightarrow> ([''error'' \<mapsto> ''Internal server error''], Some err, [])
     | Inr dynamoClient \<Rightarrow>
         (let profile = Profile request in
          case validateProfile (time_Parse_RFC3339 env) profile of
            Some err \<Rightarrow> ([''error'' \<mapsto> Error err], None, [])
          | None \<Rightarrow>
              (case updateProfileInATProtocol env (Repo request) profile (BearerToken request)
                      False [] of
                 ((response, Some err), tr) \<Rightarrow> ([''error'' \<mapsto> Error err], None, tr)
               | ((response, None), tr) \<Rightarrow>
                   (case UpdateUserInDynamoDB dynamoClient env (Repo request) profile tr of
                      (Some err, tr') \<Rightarrow>
                        ([''error'' \<mapsto> ''Failed to update profile in database''], Some err, tr')
                    | (None, tr') \<Rightarrow>
                        ([''message'' \<mapsto> ''Profile updated successfully'',
                          ''response'' \<mapsto> response], None, tr')))))"

text \<open>The three components of the result of \<open>HandleRequest\<close>.\<close>

definition result_payload :: "(string \<rightharpoonup> string) \<times> go_error option \<times> Event list \<Rightarrow> (string \<rightharpoonup> string)" where
  "result_payload r = fst r"

definition result_error :: "(string \<rightharpoonup> string) \<times> go_error option \<times> Event list \<Rightarrow> go_error option" where
  "result_error r = fst (snd r)"

definition result_trace :: "(string \<rightharpoonup> string) \<times> go_error option \<times> Event list \<Rightarrow> Event list" where
  "result_trace r = snd (snd r)"

text \<open>The events that belong to the secondary-store write.\<close>

fun is_store_event :: "Event \<Rightarrow> bool" where
  "is_store_event (DynamoInvoked u) = True"
| "is_store_event (DynamoUpdateItem i) = True"
| "is_store_event (ATProtocolPost r) = False"
| "is_store_event (ATProtocolReturned e) = False"

text \<open>Every field that \<open>buildUpdateExpression\<close> looks at is the empty string.\<close>

definition all_fields_empty :: "UserProfile \<Rightarrow> bool" where
  "all_fields_empty p \<longleftrightarrow>
     DisplayName p = '''' \<and> Bio p = '''' \<and> ProfilePicture p = '''' \<and> ProfileBanner p = '''' \<and>
     Theme p = '''' \<and> PrimaryColor p = '''' \<and> SecondaryColor p = ''''"

section \<open>Concrete inputs\<close>

text \<open>
  A time parser that accepts one timestamp, which \<open>time.Parse(time.RFC3339, _)\<close> accepts
  too, and rejects the other strings used below, none of which is a timestamp.
\<close>

definition sample_parse_ok :: "string \<Rightarrow> bool" where
  "sample_parse_ok s \<longleftrightarrow> s = ''2024-01-01T00:00:00Z''"

definition sample_profile :: UserProfile where
  "sample_profile =
    \<lparr>NSID = ''social.shareframe.profile'',
     DisplayName = ''John Doe'',
     Bio = ''Test Bio'',
     ProfilePicture = ''https://example.com/picture.jpg'',
     ProfileBanner = ''https://example.com/banner.jpg'',
     Theme = ''dark'',
     PrimaryColor = ''#abc'',
     SecondaryColor = ''#00ff7f'',
     UpdatedAt = ''2024-01-01T00:00:00Z''\<rparr>"

definition rejected_profile :: UserProfile where
  "rejected_profile =
     sample_profile\<lparr>NSID := ''app.bsky.actor.profile'', DisplayName := '''',
                    UpdatedAt := ''yesterday''\<rparr>"

text \<open>The profiles of the test cases "No fields populated" and "Some fields populated".\<close>

definition empty_profile :: UserProfile where
  "empty_profile =
    \<lparr>NSID = '''', DisplayName = '''', Bio = '''', ProfilePicture = '''', ProfileBanner = '''',
     Theme = '''', PrimaryColor = '''', SecondaryColor = '''', UpdatedAt = ''''\<rparr>"

definition jane_profile :: UserProfile where
  "jane_profile = empty_profile\<lparr>DisplayName := ''Jane Doe'', Bio := ''Hello world''\<rparr>"

definition sample_now :: string where
  "sample_now = ''2024-01-02T03:04:05Z''"

text \<open>
  An environment in which every collaborator succeeds, and variants in which one of them
  fails. The JSON encoder of the sample always succeeds with the same bytes: no statement
  below depends on the encoded body.
\<close>

definition sample_env :: Env where
  "sample_env =
    \<lparr>config_LoadDefaultConfig = None,
     dynamodb_UpdateItem = (\<lambda>input. None),
     time_Parse_RFC3339 = sample_parse_ok,
     time_Now_RFC3339 = sample_now,
     runtime_map_range = rev,
     uuid_New = ''123e4567-e89b-12d3-a456-426614174000'',
     json_Marshal = (\<lambda>body. Inr ''{}''),
     http_NewRequest_err = None,
     http_Do = (\<lambda>req. Inr \<lparr>StatusCode = 200, Status = ''200 OK''\<rparr>)\<rparr>"

definition env_http_500 :: Env where
  "env_http_500 =
     sample_env\<lparr>http_Do := (\<lambda>req. Inr \<lparr>StatusCode = 500,
                                          Status = ''500 Internal Server Error''\<rparr>)\<rparr>"

text \<open>
  A failed \<open>client.Do\<close> returns a \<open>*url.Error\<close>, whose text is the operation, the quoted
  URL and the text of the error it wraps.
\<close>

definition url_Error :: "string \<Rightarrow> string \<Rightarrow> go_error \<Rightarrow> go_error" where
  "url_Error op url err =
     wrapError (op @ '' '' @ [CHR 0x22] @ url @ [CHR 0x22] @ '': '' @ Error err) err"

definition env_transport_fails :: Env where
  "env_transport_fails =
     sample_env\<lparr>http_Do := (\<lambda>req. Inl (url_Error ''Post'' (URL req)
        (errorString ''dial tcp 10.0.0.1:443: connect: connection refused'')))\<rparr>"

definition transport_failure_text :: string where
  "transport_failure_text =
     ''Post '' @ [CHR 0x22] @ ''https://shareframe.social/xrpc/com.atproto.repo.putRecord''
       @ [CHR 0x22] @ '': dial tcp 10.0.0.1:443: connect: connection refused''"

definition sample_request :: RequestPayload where
  "sample_request = \<lparr>Repo = ''user123'', Profile = sample_profile, BearerToken = ''token''\<rparr>"

definition rejected_request :: RequestPayload where
  "rejected_request = sample_request\<lparr>Profile := rejected_profile\<rparr>"

text \<open>The request that \<open>updateProfileInATProtocol\<close> sends for the sample request.\<close>

definition sample_post :: HttpRequest where
  "sample_post =
     \<lparr>Method = ''POST'',
      URL = ''https://shareframe.social/xrpc/com.atproto.repo.putRecord'',
      Header = [(''Content-Type'', ''application/json''), (''Authorization'', ''Bearer token'')],
      Body = ''{}''\<rparr>"

text \<open>The profile of the test case "DynamoDB returns an error".\<close>

definition error_user_profile :: UserProfile where
  "error_user_profile = empty_profile\<lparr>DisplayName := ''Error User''\<rparr>"

definition failing_client :: DynamoClient where
  "failing_client = \<lparr>Client = (\<lambda>input. Some (errorString ''DynamoDB update error''))\<rparr>"

section \<open>The validator: lemmas\<close>

lemma strings_Join_sublist: "x \<in> set xs \<Longrightarrow> sublist x (strings_Join xs sep)"
proof (induction xs sep rule: strings_Join.induct)
  case (1 sep)
  then show ?case by simp
next
  case (2 y sep)
  then show ?case by simp
next
  case (3 a b ys sep)
  show ?case
  proof (cases "x = a")
    case True
    then show ?thesis by simp
  next
    case False
    with 3 have "sublist x (strings_Join (b # ys) sep)" by simp
    then obtain ps ss where "strings_Join (b # ys) sep = ps @ x @ ss"
      by (auto simp: sublist_def)
    then have "strings_Join (a # b # ys) sep = (a @ sep @ ps) @ x @ ss" by simp
    then show ?thesis unfolding sublist_def by blast
  qed
qed

lemma appends_filter:
  "(let v = [];
        v = (if b1 then v @ [r1] else v);
        v = (if b2 then v @ [r2] else v);
        v = (if b3 then v @ [r3] else v);
        v = (if b4 then v @ [r4] else v);
        v = (if b5 then v @ [r5] else v)
    in F v) = F (map snd (filter fst [(b1, r1), (b2, r2), (b3, r3), (b4, r4), (b5, r5)]))"
  by (simp add: Let_def)

lemma if_length_pos: "(if 0 < length xs then A else B) = (if xs = [] then B else A)"
  by simp

lemma validateProfile_eq:
  "validateProfile parse_ok p =
     (if violated_reasons parse_ok p = [] then None
      else Some (errorString (''profile validation failed: ''
                    @ strings_Join (violated_reasons parse_ok p) ''; '')))"
proof -
  have theme: "(Theme p \<noteq> '''' \<and> Theme p \<noteq> ''light'' \<and> Theme p \<noteq> ''dark'' \<and> Theme p \<noteq> ''custom'')
      = (Theme p \<notin> {'''', ''light'', ''dark'', ''custom''})"
    by (simp only: insert_iff empty_iff de_Morgan_disj simp_thms)
  show ?thesis
    unfolding validateProfile_def violated_reasons_def rule_table_def theme
    by (simp only: appends_filter if_length_pos)
qed

lemma validateProfile_reason:
  assumes "entry \<in> set (rule_table parse_ok p)" and "fst entry"
  shows "violated_reasons parse_ok p \<noteq> [] \<and>
         sublist (snd entry)
           (''profile validation failed: '' @ strings_Join (violated_reasons parse_ok p) ''; '')"
proof -
  from assms have mem: "snd entry \<in> set (violated_reasons parse_ok p)"
    by (auto simp: violated_reasons_def)
  then have "sublist (snd entry) (strings_Join (violated_reasons parse_ok p) ''; '')"
    by (rule strings_Join_sublist)
  then obtain ps ss where "strings_Join (violated_reasons parse_ok p) ''; '' = ps @ snd entry @ ss"
    by (auto simp: sublist_def)
  then have "''profile validation failed: '' @ strings_Join (violated_reasons parse_ok p) ''; ''
      = (''profile validation failed: '' @ ps) @ snd entry @ ss"
    by simp
  then have "sublist (snd entry)
      (''profile validation failed: '' @ strings_Join (violated_reasons parse_ok p) ''; '')"
    unfolding sublist_def by blast
  with mem show ?thesis by auto
qed

text \<open>
  At concrete inputs: the sample profile violates no rule, and the rejected profile
  violates the first, the second and the fifth.
\<close>

lemma sample_profile_no_violation: "violated_reasons sample_parse_ok sample_profile = []"
  by (simp add: violated_reasons_def rule_table_def sample_parse_ok_def sample_profile_def)

lemma rejected_profile_violations:
  "violated_reasons sample_parse_ok rejected_profile =
     [''invalid NSID: only social.shareframe.profile is allowed'',
      ''displayName must be present'',
      ''invalid datetime format for updatedAt'']"
  by (simp add: violated_reasons_def rule_table_def sample_parse_ok_def sample_profile_def
      rejected_profile_def)

text \<open>
  Claim C10. A profile with an empty display name fails validation, and the message of the
  error contains \<open>displayName must be present\<close>. A profile whose NSID is not
  \<open>social.shareframe.profile\<close> does not fail at once with an error of its own: the
  NSID reason is the first of the reasons of the one combined error, followed by the reasons
  of the other violated rules.
\<close>

theorem displayName_required_nsid_aggregated:
  "(DisplayName p = '''' \<longrightarrow>
      (\<exists>msg. validateProfile parse_ok p = Some (errorString msg) \<and>
             sublist ''displayName must be present'' msg)) \<and>
   (NSID p \<noteq> ''social.shareframe.profile'' \<longrightarrow>
      validateProfile parse_ok p =
        Some (errorString (''profile validation failed: '' @
          strings_Join (''invalid NSID: only social.shareframe.profile is allowed''
                          # map snd (filter fst (tl (rule_table parse_ok p)))) ''; '')))"
proof (intro conjI impI)
  assume empty: "DisplayName p = ''''"
  have "(DisplayName p = '''', ''displayName must be present'') \<in> set (rule_table parse_ok p)"
    unfolding rule_table_def by (simp only: list.set insert_iff simp_thms)
  from validateProfile_reason [OF this] empty
  have "violated_reasons parse_ok p \<noteq> []"
    and "sublist ''displayName must be present''
           (''profile validation failed: '' @ strings_Join (violated_reasons parse_ok p) ''; '')"
    by simp_all
  then show "\<exists>msg. validateProfile parse_ok p = Some (errorString msg) \<and>
             sublist ''displayName must be present'' msg"
    by (simp add: validateProfile_eq)
next
  assume nsid: "NSID p \<noteq> ''social.shareframe.profile''"
  have "violated_reasons parse_ok p =
      ''invalid NSID: only social.shareframe.profile is allowed''
        # map snd (filter fst (tl (rule_table parse_ok p)))"
    unfolding violated_reasons_def rule_table_def using nsid
    by (simp only: list.sel filter.simps fst_conv snd_conv list.map if_True simp_thms)
  then show "validateProfile parse_ok p =
        Some (errorString (''profile validation failed: '' @
          strings_Join (''invalid NSID: only social.shareframe.profile is allowed''
                          # map snd (filter fst (tl (rule_table parse_ok p)))) ''; ''))"
    by (simp add: validateProfile_eq)
qed

text \<open>Claim C10 at the rejected profile, whose display name is empty and whose NSID is wrong.\<close>

theorem displayName_required_nsid_aggregated_witness:
  "DisplayName rejected_profile = '''' \<and>
   NSID rejected_profile \<noteq> ''social.shareframe.profile'' \<and>
   sublist ''displayName must be present''
     ''profile validation failed: invalid NSID: only social.shareframe.profile is allowed; displayName must be present; invalid datetime format for updatedAt'' \<and>
   validateProfile sample_parse_ok rejected_profile =
     Some (errorString ''profile validation failed: invalid NSID: only social.shareframe.profile is allowed; displayName must be present; invalid datetime format for updatedAt'')"
proof -
  have d: "DisplayName rejected_profile = ''''"
    by (simp add: rejected_profile_def sample_profile_def)
  have n: "NSID rejected_profile \<noteq> ''social.shareframe.profile''"
    by (simp add: rejected_profile_def sample_profile_def)
  have t: "map snd (filter fst (tl (rule_table sample_parse_ok rejected_profile))) =
      [''displayName must be present'', ''invalid datetime format for updatedAt'']"
    by (simp add: rule_table_def sample_parse_ok_def sample_profile_def rejected_profile_def)
  from displayName_required_nsid_aggregated [of rejected_profile sample_parse_ok] d n
  obtain msg where m: "validateProfile sample_parse_ok rejected_profile = Some (errorString msg)"
      "sublist ''displayName must be present'' msg"
    and v: "validateProfile sample_parse_ok rejected_profile =
        Some (errorString (''profile validation failed: '' @
          strings_Join (''invalid NSID: only social.shareframe.profile is allowed''
              # map snd (filter fst (tl (rule_table sample_parse_ok rejected_profile)))) ''; ''))"
    by blast
  from v have v': "validateProfile sample_parse_ok rejected_profile =
     Some (errorString ''profile validation failed: invalid NSID: only social.shareframe.profile is allowed; displayName must be present; invalid datetime format for updatedAt'')"
    by (simp add: t)
  with m have "sublist ''displayName must be present''
     ''profile validation failed: invalid NSID: only social.shareframe.profile is allowed; displayName must be present; invalid datetime format for updatedAt''"
    by simp
  with d n v' show ?thesis by blast
qed

section \<open>The format checks: lemmas\<close>

text \<open>Matching with derivatives decides membership in the language of the expression.\<close>

lemma nullable_lang: "nullable r \<longleftrightarrow> [] \<in> lang r"
proof (induction r)
  case (Star r)
  have "[] = concat ([] :: string list)" by simp
  moreover have "\<forall>w \<in> set ([] :: string list). w \<in> lang r" by simp
  ultimately have "[] \<in> lang (Star r)" unfolding lang.simps by blast
  then show ?case by simp
qed auto

lemma concat_starts:
  assumes "concat ws = c # w"
  shows "\<exists>u ws'. c # u \<in> set ws \<and> set ws' \<subseteq> set ws \<and> w = u @ concat ws'"
  using assms
proof (induction ws)
  case Nil
  then show ?case by simp
next
  case (Cons x xs)
  show ?case
  proof (cases x)
    case Nil
    with Cons.prems have "concat xs = c # w" by simp
    from Cons.IH [OF this] obtain u ws' where
      "c # u \<in> set xs" "set ws' \<subseteq> set xs" "w = u @ concat ws'" by blast
    then show ?thesis by (intro exI [of _ u] exI [of _ ws']) auto
  next
    case (Cons a u)
    with Cons.prems have "a = c" "w = u @ concat xs" by simp_all
    with Cons show ?thesis by (intro exI [of _ u] exI [of _ xs]) auto
  qed
qed

lemma lang_Concat_Cons:
  "c # w \<in> lang (Concat r s) \<longleftrightarrow>
     (\<exists>u v. w = u @ v \<and> c # u \<in> lang r \<and> v \<in> lang s) \<or> ([] \<in> lang r \<and> c # w \<in> lang s)"
proof
  assume "c # w \<in> lang (Concat r s)"
  then obtain x y where xy: "c # w = x @ y" "x \<in> lang r" "y \<in> lang s" by auto
  show "(\<exists>u v. w = u @ v \<and> c # u \<in> lang r \<and> v \<in> lang s) \<or> ([] \<in> lang r \<and> c # w \<in> lang s)"
  proof (cases x)
    case Nil
    with xy show ?thesis by simp
  next
    case (Cons a u)
    with xy have "w = u @ y" "c # u \<in> lang r" by simp_all
    with xy(3) show ?thesis by blast
  qed
next
  assume "(\<exists>u v. w = u @ v \<and> c # u \<in> lang r \<and> v \<in> lang s) \<or> ([] \<in> lang r \<and> c # w \<in> lang s)"
  then show "c # w \<in> lang (Concat r s)"
  proof
    assume "\<exists>u v. w = u @ v \<and> c # u \<in> lang r \<and> v \<in> lang s"
    then obtain u v where "c # w = (c # u) @ v" "c # u \<in> lang r" "v \<in> lang s" by auto
    then show ?thesis unfolding lang.simps by blast
  next
    assume "[] \<in> lang r \<and> c # w \<in> lang s"
    then have "c # w = [] @ (c # w)" "[] \<in> lang r" "c # w \<in> lang s" by simp_all
    then show ?thesis unfolding lang.simps by blast
  qed
qed

lemma lang_Star_Cons:
  "c # w \<in> lang (Star r) \<longleftrightarrow> (\<exists>u v. w = u @ v \<and> c # u \<in> lang r \<and> v \<in> lang (Star r))"
proof
  assume "c # w \<in> lang (Star r)"
  then obtain ws where ws: "c # w = concat ws" "\<forall>x \<in> set ws. x \<in> lang r" by auto
  from concat_starts [of ws c w] ws(1) obtain u ws' where
    u: "c # u \<in> set ws" "set ws' \<subseteq> set ws" "w = u @ concat ws'" by metis
  from u(2) ws(2) have "\<forall>x \<in> set ws'. x \<in> lang r" by blast
  then have "concat ws' \<in> lang (Star r)" unfolding lang.simps by blast
  moreover from u(1) ws(2) have "c # u \<in> lang r" by blast
  ultimately show "\<exists>u v. w = u @ v \<and> c # u \<in> lang r \<and> v \<in> lang (Star r)"
    using u(3) by blast
next
  assume "\<exists>u v. w = u @ v \<and> c # u \<in> lang r \<and> v \<in> lang (Star r)"
  then obtain u ws where "w = u @ concat ws" "c # u \<in> lang r" "\<forall>x \<in> set ws. x \<in> lang r"
    by auto
  then have "c # w = concat ((c # u) # ws)" "\<forall>x \<in> set ((c # u) # ws). x \<in> lang r"
    by simp_all
  then show "c # w \<in> lang (Star r)" unfolding lang.simps by blast
qed

lemma lang_deriv: "w \<in> lang (deriv c r) \<longleftrightarrow> c # w \<in> lang r"
proof (induction r arbitrary: w)
  case NoMatch
  show ?case by simp
next
  case EmptyString
  show ?case by simp
next
  case (CharClass cs)
  show ?case by auto
next
  case AnyCharNotNL
  show ?case by auto
next
  case (Alternate r s)
  then show ?case by simp
next
  case (Concat r s)
  have "w \<in> lang (deriv c (Concat r s)) \<longleftrightarrow>
      (\<exists>u v. w = u @ v \<and> u \<in> lang (deriv c r) \<and> v \<in> lang s) \<or> (nullable r \<and> w \<in> lang (deriv c s))"
    by auto
  also have "\<dots> \<longleftrightarrow>
      (\<exists>u v. w = u @ v \<and> c # u \<in> lang r \<and> v \<in> lang s) \<or> ([] \<in> lang r \<and> c # w \<in> lang s)"
    by (simp only: Concat.IH nullable_lang)
  finally show ?case by (simp only: lang_Concat_Cons)
next
  case (Star r)
  have "w \<in> lang (deriv c (Star r)) \<longleftrightarrow>
      (\<exists>u v. w = u @ v \<and> u \<in> lang (deriv c r) \<and> v \<in> lang (Star r))"
    by auto
  also have "\<dots> \<longleftrightarrow> (\<exists>u v. w = u @ v \<and> c # u \<in> lang r \<and> v \<in> lang (Star r))"
    by (simp only: Star.IH)
  finally show ?case by (simp only: lang_Star_Cons)
qed

lemma MatchString_lang: "MatchString r s \<longleftrightarrow> s \<in> lang r"
  by (induction s arbitrary: r) (simp_all add: nullable_lang lang_deriv)

text \<open>The format checks at the strings used below.\<close>

lemma sample_urls_valid:
  "isValidURL ''https://example.com/picture.jpg''" "isValidURL ''https://example.com/banner.jpg''"
  by (simp_all add: isValidURL_def urlRegex_def optional_def one_or_more_def)

lemma sample_colors_valid: "isValidHexColor ''#abc''" "isValidHexColor ''#00ff7f''"
  by (simp_all add: isValidHexColor_def hexColorRegex_def optional_def hex_digit_def)

lemma not_a_url: "\<not> isValidURL ''not a url''"
  by (simp add: isValidURL_def urlRegex_def optional_def one_or_more_def)

lemma scheme_only: "\<not> isValidURL ''://''"
  by (simp add: isValidURL_def urlRegex_def optional_def one_or_more_def)

lemma blue_not_hex: "\<not> isValidHexColor ''blue''"
  by (simp add: isValidHexColor_def hexColorRegex_def optional_def hex_digit_def)

lemma five_digits_not_hex: "\<not> isValidHexColor ''#12345''"
  by (simp add: isValidHexColor_def hexColorRegex_def optional_def hex_digit_def)

text \<open>
  Claim C4, evaluated on the code of handler.go. The sample profile with the picture
  \<open>not a url\<close> has a picture that is not empty and that \<open>isValidURL\<close> rejects, and
  \<open>validateProfile\<close> returns no error for it.
\<close>

theorem validateProfile_accepts_bad_url:
  "ProfilePicture (sample_profile\<lparr>ProfilePicture := ''not a url''\<rparr>) \<noteq> '''' \<and>
   \<not> isValidURL (ProfilePicture (sample_profile\<lparr>ProfilePicture := ''not a url''\<rparr>)) \<and>
   validateProfile sample_parse_ok (sample_profile\<lparr>ProfilePicture := ''not a url''\<rparr>) = None"
proof -
  have "violated_reasons sample_parse_ok (sample_profile\<lparr>ProfilePicture := ''not a url''\<rparr>) = []"
    by (simp add: violated_reasons_def rule_table_def sample_parse_ok_def sample_profile_def)
  then show ?thesis by (simp add: validateProfile_eq not_a_url)
qed

text \<open>
  Claim C5, evaluated on the code of handler.go. The sample profile with the primary colour
  \<open>blue\<close> has a colour that is not empty and that \<open>isValidHexColor\<close> rejects, and
  \<open>validateProfile\<close> returns no error for it.
\<close>

theorem validateProfile_accepts_bad_color:
  "PrimaryColor (sample_profile\<lparr>PrimaryColor := ''blue''\<rparr>) \<noteq> '''' \<and>
   \<not> isValidHexColor (PrimaryColor (sample_profile\<lparr>PrimaryColor := ''blue''\<rparr>)) \<and>
   validateProfile sample_parse_ok (sample_profile\<lparr>PrimaryColor := ''blue''\<rparr>) = None"
proof -
  have "violated_reasons sample_parse_ok (sample_profile\<lparr>PrimaryColor := ''blue''\<rparr>) = []"
    by (simp add: violated_reasons_def rule_table_def sample_parse_ok_def sample_profile_def)
  then show ?thesis by (simp add: validateProfile_eq blue_not_hex)
qed

text \<open>
  Claim C6, evaluated on the code of handler.go. The sample profile with the banner
  \<open>://\<close> and the secondary colour \<open>#12345\<close> violates the banner rule and the colour
  rule of the specification (its picture and its primary colour are well formed), and
  \<open>validateProfile\<close> returns no error for it: neither reason is reported.
\<close>

theorem validateProfile_misses_violated_rules:
  "ProfileBanner (sample_profile\<lparr>ProfileBanner := ''://'', SecondaryColor := ''#12345''\<rparr>) \<noteq> '''' \<and>
   \<not> isValidURL (ProfileBanner (sample_profile\<lparr>ProfileBanner := ''://'', SecondaryColor := ''#12345''\<rparr>)) \<and>
   SecondaryColor (sample_profile\<lparr>ProfileBanner := ''://'', SecondaryColor := ''#12345''\<rparr>) \<noteq> '''' \<and>
   \<not> isValidHexColor (SecondaryColor (sample_profile\<lparr>ProfileBanner := ''://'', SecondaryColor := ''#12345''\<rparr>)) \<and>
   validateProfile sample_parse_ok
     (sample_profile\<lparr>ProfileBanner := ''://'', SecondaryColor := ''#12345''\<rparr>) = None"
proof -
  have "violated_reasons sample_parse_ok
      (sample_profile\<lparr>ProfileBanner := ''://'', SecondaryColor := ''#12345''\<rparr>) = []"
    by (simp add: violated_reasons_def rule_table_def sample_parse_ok_def sample_profile_def)
  then show ?thesis by (simp add: validateProfile_eq scheme_only five_digits_not_hex)
qed

section \<open>The expression builder: lemmas\<close>

lemma fold_range_body_parts:
  "fst (fold range_body es st) = fst st @ map clause (filter (\<lambda>e. snd e \<noteq> '''') es)"
  by (induction es arbitrary: st) (auto simp: range_body_def clause_def split: prod.splits)

lemma range_body_dom:
  "dom (snd (range_body e st)) =
     dom (snd st) \<union> (if snd e \<noteq> '''' then {'':'' @ fst e} else {})"
  by (cases e; cases st) (simp add: range_body_def)

lemma fold_range_body_dom:
  "dom (snd (fold range_body es st)) =
     dom (snd st) \<union> (\<lambda>e. '':'' @ fst e) ` {e \<in> set es. snd e \<noteq> ''''}"
proof (induction es arbitrary: st)
  case Nil
  then show ?case by simp
next
  case (Cons e es)
  have "dom (snd (fold range_body (e # es) st)) =
      dom (snd (range_body e st)) \<union> (\<lambda>e. '':'' @ fst e) ` {e \<in> set es. snd e \<noteq> ''''}"
    by (simp add: Cons.IH)
  also have "\<dots> = dom (snd st) \<union> (\<lambda>e. '':'' @ fst e) ` {x \<in> set (e # es). snd x \<noteq> ''''}"
    unfolding range_body_dom by auto
  finally show ?case .
qed

lemma fold_range_body_skip:
  "\<forall>e \<in> set es. snd e = '''' \<Longrightarrow> fold range_body es st = st"
  by (induction es arbitrary: st) (auto simp: range_body_def split: prod.splits)

lemma buildUpdateExpression_fst:
  "fst (buildUpdateExpression map_range now p) =
     strings_Join (map clause (filter (\<lambda>e. snd e \<noteq> '''') (map_range (fields_map p)))
                     @ [''UpdatedAt = :UpdatedAt'']) '', ''"
proof -
  obtain parts vals where f: "fold range_body (map_range (fields_map p)) ([], Map.empty) = (parts, vals)"
    by (cases "fold range_body (map_range (fields_map p)) ([], Map.empty)")
  from fold_range_body_parts [of "map_range (fields_map p)" "([], Map.empty)"]
  have "parts = map clause (filter (\<lambda>e. snd e \<noteq> '''') (map_range (fields_map p)))"
    by (simp add: f)
  then show ?thesis by (simp add: buildUpdateExpression_def f)
qed

lemma buildUpdateExpression_dom:
  "dom (snd (buildUpdateExpression map_range now p)) =
     insert '':UpdatedAt''
       ((\<lambda>e. '':'' @ fst e) ` {e \<in> set (map_range (fields_map p)). snd e \<noteq> ''''})"
proof -
  obtain parts vals where f: "fold range_body (map_range (fields_map p)) ([], Map.empty) = (parts, vals)"
    by (cases "fold range_body (map_range (fields_map p)) ([], Map.empty)")
  from fold_range_body_dom [of "map_range (fields_map p)" "([], Map.empty)"]
  have "dom vals = (\<lambda>e. '':'' @ fst e) ` {e \<in> set (map_range (fields_map p)). snd e \<noteq> ''''}"
    by (simp add: f)
  then show ?thesis by (simp add: buildUpdateExpression_def f)
qed

lemma clause_inj: "clause e = clause e' \<Longrightarrow> fst e = fst e'"
proof -
  assume eq: "clause e = clause e'"
  then have "length (clause e) = length (clause e')" by simp
  then have "length (fst e) = length (fst e')" by (simp add: clause_def)
  with eq show ?thesis by (simp add: clause_def)
qed

lemma keys_fields:
  "map fst (fields_map p) =
     [''DisplayName'', ''Bio'', ''ProfilePicture'', ''ProfileBanner'', ''Theme'',
      ''PrimaryColor'', ''SecondaryColor'']"
  by (simp add: fields_map_def)

lemma distinct_keys_fields: "distinct (map fst (fields_map p))"
  unfolding keys_fields by simp

lemma UpdatedAt_not_a_key: "''UpdatedAt'' \<notin> set (map fst (fields_map p))"
  unfolding keys_fields by simp

lemma distinct_fields: "distinct (fields_map p)"
  using distinct_keys_fields distinct_map by blast

lemma inj_on_binding: "inj_on (\<lambda>e. '':'' @ fst e) (set (fields_map p))"
proof -
  have "inj_on fst (set (fields_map p))"
    using distinct_keys_fields distinct_map by blast
  then show ?thesis by (auto simp: inj_on_def)
qed

lemma card_bindings:
  assumes "visits_each_once map_range p"
  shows "card (dom (snd (buildUpdateExpression map_range now p))) = length (populated p) + 1"
proof -
  let ?f = "\<lambda>e::string \<times> string. '':'' @ fst e"
  from assms have s: "set (map_range (fields_map p)) = set (fields_map p)"
    unfolding visits_each_once_def by (rule mset_eq_setD)
  have pop: "{e \<in> set (fields_map p). snd e \<noteq> ''''} = set (populated p)"
    by (auto simp: populated_def)
  have sub: "set (populated p) \<subseteq> set (fields_map p)"
    by (auto simp: populated_def)
  have inj: "inj_on ?f (set (populated p))"
    using inj_on_binding sub by (rule inj_on_subset)
  have "distinct (populated p)"
    unfolding populated_def using distinct_fields by (rule distinct_filter)
  then have c: "card (?f ` set (populated p)) = length (populated p)"
    using inj by (simp add: card_image distinct_card)
  have notin: "'':UpdatedAt'' \<notin> ?f ` set (populated p)"
  proof
    assume "'':UpdatedAt'' \<in> ?f ` set (populated p)"
    then obtain e where "e \<in> set (populated p)" "fst e = ''UpdatedAt''" by auto
    with sub have "''UpdatedAt'' \<in> set (map fst (fields_map p))" by force
    with UpdatedAt_not_a_key show False by blast
  qed
  have "dom (snd (buildUpdateExpression map_range now p)) = insert '':UpdatedAt'' (?f ` set (populated p))"
    by (simp only: buildUpdateExpression_dom s pop)
  with notin c show ?thesis by simp
qed

lemma mset_parts:
  assumes "visits_each_once map_range p"
  shows "mset (map clause (filter (\<lambda>e. snd e \<noteq> '''') (map_range (fields_map p)))) =
         mset (map clause (populated p))"
  using assms by (simp add: visits_each_once_def populated_def)

lemma distinct_parts:
  assumes "visits_each_once map_range p"
  shows "distinct (map clause (filter (\<lambda>e. snd e \<noteq> '''') (map_range (fields_map p))))"
proof -
  have "inj_on fst (set (fields_map p))"
    using distinct_keys_fields distinct_map by blast
  then have "inj_on clause (set (fields_map p))"
    by (auto simp: inj_on_def dest: clause_inj)
  then have "distinct (map clause (fields_map p))"
    using distinct_fields by (simp add: distinct_map)
  then have "distinct (map clause (populated p))"
    unfolding populated_def by (rule distinct_map_filter)
  then show ?thesis
    using mset_eq_imp_distinct_iff [OF mset_parts [OF assms]] by blast
qed

text \<open>
  Claim C3, amended. When the runtime visits every entry of the field map once, the
  expression is the clauses of the populated fields, in the order in which the runtime
  visited them, followed by the clause \<open>UpdatedAt = :UpdatedAt\<close>, joined by a comma and
  a space; there is exactly one clause for each populated field and none for the others;
  the binding map has one key more than there are populated fields.
\<close>

theorem buildUpdateExpression_clauses:
  assumes "visits_each_once map_range p"
  shows "\<exists>parts.
     parts = map clause (filter (\<lambda>e. snd e \<noteq> '''') (map_range (fields_map p))) \<and>
     fst (buildUpdateExpression map_range now p) =
       strings_Join (parts @ [''UpdatedAt = :UpdatedAt'']) '', '' \<and>
     mset parts = mset (map clause (populated p)) \<and>
     distinct parts \<and>
     card (dom (snd (buildUpdateExpression map_range now p))) = length (populated p) + 1"
  using assms
  by (simp only: buildUpdateExpression_fst mset_parts distinct_parts card_bindings simp_thms)

text \<open>The field map of the test profile "Some fields populated", and two iteration orders.\<close>

lemma jane_fields:
  "fields_map jane_profile =
     [(''DisplayName'', ''Jane Doe''), (''Bio'', ''Hello world''), (''ProfilePicture'', ''''),
      (''ProfileBanner'', ''''), (''Theme'', ''''), (''PrimaryColor'', ''''),
      (''SecondaryColor'', '''')]"
  by (simp add: fields_map_def jane_profile_def empty_profile_def)

lemma jane_populated:
  "populated jane_profile = [(''DisplayName'', ''Jane Doe''), (''Bio'', ''Hello world'')]"
  by (simp add: populated_def jane_fields)

lemma visits_each_once_id: "visits_each_once id p"
  by (simp add: visits_each_once_def)

lemma visits_each_once_rev: "visits_each_once rev p"
  by (simp add: visits_each_once_def)

text \<open>
  Against claim C3 as stated: for the same profile, the runtime visiting the field map in
  the written order and in the reverse order gives two different orders of the field
  clauses.
\<close>

theorem field_order_counterexample:
  "visits_each_once id jane_profile \<and> visits_each_once rev jane_profile \<and>
   fst (buildUpdateExpression id sample_now jane_profile) =
     ''DisplayName = :DisplayName, Bio = :Bio, UpdatedAt = :UpdatedAt'' \<and>
   fst (buildUpdateExpression rev sample_now jane_profile) =
     ''Bio = :Bio, DisplayName = :DisplayName, UpdatedAt = :UpdatedAt''"
  by (simp add: visits_each_once_id visits_each_once_rev buildUpdateExpression_fst
      jane_fields clause_def)

text \<open>Claim C3, amended, at the test profile with the reverse iteration order.\<close>

theorem buildUpdateExpression_clauses_witness:
  "visits_each_once rev jane_profile \<and>
   fst (buildUpdateExpression rev sample_now jane_profile) =
     strings_Join ([''Bio = :Bio'', ''DisplayName = :DisplayName'']
                     @ [''UpdatedAt = :UpdatedAt'']) '', '' \<and>
   mset [''Bio = :Bio'', ''DisplayName = :DisplayName''] =
     mset (map clause (populated jane_profile)) \<and>
   distinct [''Bio = :Bio'', ''DisplayName = :DisplayName''] \<and>
   card (dom (snd (buildUpdateExpression rev sample_now jane_profile))) = 2 + 1"
proof -
  have parts: "map clause (filter (\<lambda>e. snd e \<noteq> '''') (rev (fields_map jane_profile))) =
      [''Bio = :Bio'', ''DisplayName = :DisplayName'']"
    by (simp add: jane_fields clause_def)
  have len: "length (populated jane_profile) = 2"
    by (simp add: jane_populated)
  from buildUpdateExpression_clauses [OF visits_each_once_rev, of jane_profile sample_now]
  show ?thesis
    unfolding parts len using visits_each_once_rev [of jane_profile] by simp
qed

text \<open>
  Claim C8. When the runtime visits every entry of the field map once: for a profile whose
  seven fields are all empty, \<open>buildUpdateExpression\<close> returns exactly the expression
  \<open>UpdatedAt = :UpdatedAt\<close> and the binding map with the one key \<open>:UpdatedAt\<close>; for
  every profile the binding map contains the key \<open>:UpdatedAt\<close>, and it has size 1 exactly
  when all seven fields are empty.
\<close>

theorem buildUpdateExpression_timestamp_only:
  assumes "visits_each_once map_range p"
  shows "(all_fields_empty p \<longrightarrow>
            buildUpdateExpression map_range now p =
              (''UpdatedAt = :UpdatedAt'', ['':UpdatedAt'' \<mapsto> AttributeValueMemberS now]) \<and>
            card (dom (snd (buildUpdateExpression map_range now p))) = 1) \<and>
         '':UpdatedAt'' \<in> dom (snd (buildUpdateExpression map_range now p)) \<and>
         (card (dom (snd (buildUpdateExpression map_range now p))) = 1 \<longleftrightarrow> all_fields_empty p)"
proof -
  have pop: "populated p = [] \<longleftrightarrow> all_fields_empty p"
    by (auto simp: populated_def fields_map_def all_fields_empty_def)
  have card: "card (dom (snd (buildUpdateExpression map_range now p))) = 1 \<longleftrightarrow> all_fields_empty p"
    using card_bindings [OF assms, of now] pop by simp
  have key: "'':UpdatedAt'' \<in> dom (snd (buildUpdateExpression map_range now p))"
    by (simp only: buildUpdateExpression_dom insertI1)
  have exact: "buildUpdateExpression map_range now p =
      (''UpdatedAt = :UpdatedAt'', ['':UpdatedAt'' \<mapsto> AttributeValueMemberS now])"
    if e: "all_fields_empty p"
  proof -
    from e have "\<forall>e \<in> set (fields_map p). snd e = ''''"
      by (simp add: fields_map_def all_fields_empty_def)
    moreover from assms have "set (map_range (fields_map p)) = set (fields_map p)"
      unfolding visits_each_once_def by (rule mset_eq_setD)
    ultimately have "\<forall>e \<in> set (map_range (fields_map p)). snd e = ''''" by simp
    then have "fold range_body (map_range (fields_map p)) ([], Map.empty) = ([], Map.empty)"
      by (rule fold_range_body_skip)
    then show ?thesis by (simp add: buildUpdateExpression_def)
  qed
  from card key exact show ?thesis by blast
qed

text \<open>Claim C8 at the empty test profile and at the test profile with two fields.\<close>

theorem buildUpdateExpression_timestamp_only_witness:
  "visits_each_once rev empty_profile \<and> all_fields_empty empty_profile \<and>
   buildUpdateExpression rev sample_now empty_profile =
     (''UpdatedAt = :UpdatedAt'', ['':UpdatedAt'' \<mapsto> AttributeValueMemberS sample_now]) \<and>
   card (dom (snd (buildUpdateExpression rev sample_now empty_profile))) = 1 \<and>
   visits_each_once rev jane_profile \<and> \<not> all_fields_empty jane_profile \<and>
   card (dom (snd (buildUpdateExpression rev sample_now jane_profile))) \<noteq> 1"
proof -
  have e: "all_fields_empty empty_profile"
    by (simp add: all_fields_empty_def empty_profile_def)
  have j: "\<not> all_fields_empty jane_profile"
    by (simp add: all_fields_empty_def jane_profile_def empty_profile_def)
  from buildUpdateExpression_timestamp_only [OF visits_each_once_rev, of empty_profile sample_now]
       buildUpdateExpression_timestamp_only [OF visits_each_once_rev, of jane_profile sample_now]
       e j visits_each_once_rev [of empty_profile] visits_each_once_rev [of jane_profile]
  show ?thesis by blast
qed

section \<open>The secondary store client: lemmas\<close>

text \<open>
  Claim C9. A call of \<open>UpdateUserInDynamoDB\<close> with an empty user id returns the error
  \<open>userID cannot be empty\<close> and sends nothing to the store. With a user id that is not
  empty and a binding map of size 1 (the timestamp alone) it returns the error
  \<open>no valid fields provided to update\<close> and sends nothing to the store. Otherwise it sends
  exactly one \<open>UpdateItem\<close>, keyed by the user id, and returns no error when the operation
  succeeds and the operation's error, wrapped as \<open>failed to update user in DynamoDB\<close>,
  when it fails.
\<close>

theorem UpdateUserInDynamoDB_outcomes:
  "(userID = '''' \<longrightarrow>
      UpdateUserInDynamoDB d env userID profile tr =
        (Some (errorString ''userID cannot be empty''), tr @ [DynamoInvoked userID])) \<and>
   (userID \<noteq> '''' \<and>
    card (dom (snd (buildUpdateExpression (runtime_map_range env) (time_Now_RFC3339 env) profile))) = 1 \<longrightarrow>
      UpdateUserInDynamoDB d env userID profile tr =
        (Some (errorString ''no valid fields provided to update''), tr @ [DynamoInvoked userID])) \<and>
   (userID \<noteq> '''' \<and>
    card (dom (snd (buildUpdateExpression (runtime_map_range env) (time_Now_RFC3339 env) profile))) \<noteq> 1 \<longrightarrow>
      (\<exists>input.
         input = \<lparr>TableName = ''Users'',
                  Key = [(''UserId'', AttributeValueMemberS userID)],
                  UpdateExpression = ''SET '' @
                    fst (buildUpdateExpression (runtime_map_range env) (time_Now_RFC3339 env) profile),
                  ExpressionAttributeValues =
                    snd (buildUpdateExpression (runtime_map_range env) (time_Now_RFC3339 env) profile),
                  ReturnValues = ''UPDATED_NEW''\<rparr> \<and>
         snd (UpdateUserInDynamoDB d env userID profile tr) =
           tr @ [DynamoInvoked userID, DynamoUpdateItem input] \<and>
         fst (UpdateUserInDynamoDB d env userID profile tr) =
           (case Client d input of
              None \<Rightarrow> None
            | Some err \<Rightarrow>
                Some (wrapError (''failed to update user in DynamoDB: '' @ Error err) err))))"
proof (intro conjI impI)
  show "UpdateUserInDynamoDB d env userID profile tr =
        (Some (errorString ''userID cannot be empty''), tr @ [DynamoInvoked userID])"
    if "userID = ''''"
    using that by (simp add: UpdateUserInDynamoDB_def)
next
  assume "userID \<noteq> '''' \<and>
    card (dom (snd (buildUpdateExpression (runtime_map_range env) (time_Now_RFC3339 env) profile))) = 1"
  then show "UpdateUserInDynamoDB d env userID profile tr =
        (Some (errorString ''no valid fields provided to update''), tr @ [DynamoInvoked userID])"
    by (cases "buildUpdateExpression (runtime_map_range env) (time_Now_RFC3339 env) profile")
       (simp add: UpdateUserInDynamoDB_def Let_def)
next
  assume a: "userID \<noteq> '''' \<and>
    card (dom (snd (buildUpdateExpression (runtime_map_range env) (time_Now_RFC3339 env) profile))) \<noteq> 1"
  obtain updateExpression exprValues where
    b: "buildUpdateExpression (runtime_map_range env) (time_Now_RFC3339 env) profile =
          (updateExpression, exprValues)"
    by (cases "buildUpdateExpression (runtime_map_range env) (time_Now_RFC3339 env) profile")
  from a b show "\<exists>input.
         input = \<lparr>TableName = ''Users'',
                  Key = [(''UserId'', AttributeValueMemberS userID)],
                  UpdateExpression = ''SET '' @
                    fst (buildUpdateExpression (runtime_map_range env) (time_Now_RFC3339 env) profile),
                  ExpressionAttributeValues =
                    snd (buildUpdateExpression (runtime_map_range env) (time_Now_RFC3339 env) profile),
                  ReturnValues = ''UPDATED_NEW''\<rparr> \<and>
         snd (UpdateUserInDynamoDB d env userID profile tr) =
           tr @ [DynamoInvoked userID, DynamoUpdateItem input] \<and>
         fst (UpdateUserInDynamoDB d env userID profile tr) =
           (case Client d input of
              None \<Rightarrow> None
            | Some err \<Rightarrow>
                Some (wrapError (''failed to update user in DynamoDB: '' @ Error err) err))"
    by (simp add: UpdateUserInDynamoDB_def tableName_def Let_def split: option.splits)
qed

text \<open>The sizes of the binding maps of two test profiles.\<close>

lemma sample_env_sel:
  "runtime_map_range sample_env = rev" "time_Now_RFC3339 sample_env = sample_now"
  by (simp_all add: sample_env_def)

lemma card_empty_profile:
  "card (dom (snd (buildUpdateExpression rev sample_now empty_profile))) = 1"
  using card_bindings [OF visits_each_once_rev [of empty_profile], of sample_now]
  by (simp add: populated_def fields_map_def empty_profile_def)

lemma card_error_user_profile:
  "card (dom (snd (buildUpdateExpression rev sample_now error_user_profile))) = 2"
  using card_bindings [OF visits_each_once_rev [of error_user_profile], of sample_now]
  by (simp add: populated_def fields_map_def empty_profile_def error_user_profile_def)

text \<open>
  Claim C9 at an empty user id, at the empty test profile and at the test case in which the
  store fails.
\<close>

theorem UpdateUserInDynamoDB_outcomes_witness:
  "UpdateUserInDynamoDB failing_client sample_env '''' sample_profile [] =
     (Some (errorString ''userID cannot be empty''), [DynamoInvoked '''']) \<and>
   UpdateUserInDynamoDB failing_client sample_env ''user789'' empty_profile [] =
     (Some (errorString ''no valid fields provided to update''), [DynamoInvoked ''user789'']) \<and>
   length (snd (UpdateUserInDynamoDB failing_client sample_env ''user-error'' error_user_profile [])) = 2 \<and>
   fst (UpdateUserInDynamoDB failing_client sample_env ''user-error'' error_user_profile []) =
     Some (wrapError ''failed to update user in DynamoDB: DynamoDB update error''
             (errorString ''DynamoDB update error''))"
proof -
  have 1: "UpdateUserInDynamoDB failing_client sample_env '''' sample_profile [] =
     (Some (errorString ''userID cannot be empty''), [DynamoInvoked ''''])"
    using UpdateUserInDynamoDB_outcomes [of "''''" failing_client sample_env sample_profile "[]"]
    by simp
  have 2: "UpdateUserInDynamoDB failing_client sample_env ''user789'' empty_profile [] =
     (Some (errorString ''no valid fields provided to update''), [DynamoInvoked ''user789''])"
    using UpdateUserInDynamoDB_outcomes [of "''user789''" failing_client sample_env empty_profile "[]"]
    by (simp add: sample_env_sel card_empty_profile)
  have 3: "length (snd (UpdateUserInDynamoDB failing_client sample_env ''user-error'' error_user_profile [])) = 2 \<and>
   fst (UpdateUserInDynamoDB failing_client sample_env ''user-error'' error_user_profile []) =
     Some (wrapError ''failed to update user in DynamoDB: DynamoDB update error''
             (errorString ''DynamoDB update error''))"
    using UpdateUserInDynamoDB_outcomes [of "''user-error''" failing_client sample_env error_user_profile "[]"]
    by (simp add: sample_env_sel card_error_user_profile failing_client_def)
  from 1 2 3 show ?thesis by blast
qed

section \<open>The orchestrator: lemmas\<close>

text \<open>The four ways in which \<open>HandleRequest\<close> returns.\<close>

lemma HandleRequest_config_fails:
  assumes "config_LoadDefaultConfig env = Some cfg"
  shows "HandleRequest env request =
    ([''error'' \<mapsto> ''Internal server error''],
     Some (wrapError (''failed to load AWS SDK config: '' @ Error cfg) cfg), [])"
  using assms by (simp add: HandleRequest_def NewDynamoClient_def)

lemma HandleRequest_invalid:
  assumes "config_LoadDefaultConfig env = None"
    and "validateProfile (time_Parse_RFC3339 env) (Profile request) = Some err"
  shows "HandleRequest env request = ([''error'' \<mapsto> Error err], None, [])"
  using assms by (simp add: HandleRequest_def NewDynamoClient_def)

lemma HandleRequest_record_fails:
  assumes "config_LoadDefaultConfig env = None"
    and "validateProfile (time_Parse_RFC3339 env) (Profile request) = None"
    and "updateProfileInATProtocol env (Repo request) (Profile request) (BearerToken request)
           False [] = ((response, Some err), tr)"
  shows "HandleRequest env request = ([''error'' \<mapsto> Error err], None, tr)"
  using assms by (simp add: HandleRequest_def NewDynamoClient_def)

lemma HandleRequest_record_ok:
  assumes "config_LoadDefaultConfig env = None"
    and "validateProfile (time_Parse_RFC3339 env) (Profile request) = None"
    and "updateProfileInATProtocol env (Repo request) (Profile request) (BearerToken request)
           False [] = ((response, None), tr)"
    and "UpdateUserInDynamoDB \<lparr>Client = dynamodb_UpdateItem env\<rparr> env (Repo request)
           (Profile request) tr = (err, tr')"
  shows "result_trace (HandleRequest env request) = tr'"
    and "result_error (HandleRequest env request) = err"
    and "result_payload (HandleRequest env request) =
           (case err of
              Some e \<Rightarrow> [''error'' \<mapsto> ''Failed to update profile in database'']
            | None \<Rightarrow> [''message'' \<mapsto> ''Profile updated successfully'',
                       ''response'' \<mapsto> response])"
  using assms
  by (simp_all add: HandleRequest_def NewDynamoClient_def result_trace_def result_error_def
      result_payload_def split: option.splits)

text \<open>
  What each client adds to the trace: the record client at most a POST and then its return,
  the store client only events of the store write.
\<close>

lemma updateProfileInATProtocol_trace:
  assumes "updateProfileInATProtocol env repo profile token validate tr0 = ((response, err), tr)"
  shows "\<exists>pre. tr = tr0 @ pre @ [ATProtocolReturned err] \<and>
           (\<forall>ev \<in> set pre. \<exists>req. ev = ATProtocolPost req)"
  using assms
  by (auto simp: updateProfileInATProtocol_def Let_def split: sum.splits option.splits if_splits)

lemma UpdateUserInDynamoDB_trace:
  assumes "UpdateUserInDynamoDB d env userID profile tr0 = (err, tr)"
  shows "\<exists>post. tr = tr0 @ post \<and> (\<forall>ev \<in> set post. is_store_event ev)"
  using assms
  by (auto simp: UpdateUserInDynamoDB_def Let_def split: prod.splits option.splits if_splits)

lemma HandleRequest_trace_shape:
  "result_trace (HandleRequest env request) = [] \<or>
   (\<exists>pre err. result_trace (HandleRequest env request) = pre @ [ATProtocolReturned (Some err)] \<and>
       (\<forall>ev \<in> set pre. \<exists>req. ev = ATProtocolPost req)) \<or>
   (\<exists>pre post. result_trace (HandleRequest env request) = pre @ [ATProtocolReturned None] @ post \<and>
       (\<forall>ev \<in> set pre. \<exists>req. ev = ATProtocolPost req) \<and>
       (\<forall>ev \<in> set post. is_store_event ev))"
proof (cases "config_LoadDefaultConfig env")
  case (Some cfg)
  then show ?thesis by (simp add: HandleRequest_config_fails result_trace_def)
next
  case None
  note cfg = this
  show ?thesis
  proof (cases "validateProfile (time_Parse_RFC3339 env) (Profile request)")
    case (Some err)
    with cfg show ?thesis by (simp add: HandleRequest_invalid result_trace_def)
  next
    case None
    note valid = this
    obtain response err tr where
      at: "updateProfileInATProtocol env (Repo request) (Profile request) (BearerToken request)
             False [] = ((response, err), tr)"
      by (metis surj_pair)
    from updateProfileInATProtocol_trace [OF at] obtain pre where
      pre: "tr = pre @ [ATProtocolReturned err]" "\<forall>ev \<in> set pre. \<exists>req. ev = ATProtocolPost req"
      by auto
    show ?thesis
    proof (cases err)
      case (Some e)
      with cfg valid at have "HandleRequest env request = ([''error'' \<mapsto> Error e], None, tr)"
        by (simp add: HandleRequest_record_fails)
      with pre Some show ?thesis by (auto simp: result_trace_def)
    next
      case None
      obtain err' tr' where
        db: "UpdateUserInDynamoDB \<lparr>Client = dynamodb_UpdateItem env\<rparr> env (Repo request)
               (Profile request) tr = (err', tr')"
        by (metis surj_pair)
      from UpdateUserInDynamoDB_trace [OF db] obtain post where
        post: "tr' = tr @ post" "\<forall>ev \<in> set post. is_store_event ev"
        by auto
      from cfg valid at db None have "result_trace (HandleRequest env request) = tr'"
        by (simp add: HandleRequest_record_ok(1))
      with pre post None have "result_trace (HandleRequest env request) = pre @ [ATProtocolReturned None] @ post"
        by simp
      with pre post show ?thesis by blast
    qed
  qed
qed

text \<open>
  Claim C2. In the trace of every invocation, every event of the secondary-store write (the
  entry into \<open>UpdateUserInDynamoDB\<close>, the \<open>UpdateItem\<close> operation) comes after the
  return of the record-service write with no error; and when the record-service write
  returned an error, the trace has no event of the secondary-store write.
\<close>

theorem record_write_before_store_write:
  "(\<forall>i < length (result_trace (HandleRequest env request)).
      is_store_event (result_trace (HandleRequest env request) ! i) \<longrightarrow>
      (\<exists>j < i. result_trace (HandleRequest env request) ! j = ATProtocolReturned None)) \<and>
   ((\<exists>err. ATProtocolReturned (Some err) \<in> set (result_trace (HandleRequest env request))) \<longrightarrow>
      (\<forall>ev \<in> set (result_trace (HandleRequest env request)). \<not> is_store_event ev))"
proof -
  let ?tr = "result_trace (HandleRequest env request)"
  consider (none) "?tr = []"
    | (failed) pre err where "?tr = pre @ [ATProtocolReturned (Some err)]"
        "\<forall>ev \<in> set pre. \<exists>req. ev = ATProtocolPost req"
    | (written) pre post where "?tr = pre @ [ATProtocolReturned None] @ post"
        "\<forall>ev \<in> set pre. \<exists>req. ev = ATProtocolPost req" "\<forall>ev \<in> set post. is_store_event ev"
    using HandleRequest_trace_shape [of env request] by blast
  then show ?thesis
  proof cases
    case none
    then show ?thesis by simp
  next
    case failed
    have "\<not> is_store_event ev" if "ev \<in> set ?tr" for ev
      using that failed by auto
    then show ?thesis by (metis nth_mem)
  next
    case written
    have a: "\<exists>j < i. ?tr ! j = ATProtocolReturned None"
      if "i < length ?tr" "is_store_event (?tr ! i)" for i
    proof -
      have "\<not> i < length pre"
      proof
        assume "i < length pre"
        then have "?tr ! i \<in> set pre" by (simp add: written(1) nth_append)
        with written(2) that(2) show False by auto
      qed
      moreover have "i \<noteq> length pre"
        using that(2) by (auto simp: written(1) nth_append)
      ultimately have "length pre < i" by simp
      moreover have "?tr ! length pre = ATProtocolReturned None"
        by (simp add: written(1) nth_append)
      ultimately show ?thesis by blast
    qed
    have b: "ATProtocolReturned (Some err) \<notin> set ?tr" for err
      using written by auto
    from a b show ?thesis by blast
  qed
qed

text \<open>The sample inputs, evaluated.\<close>

lemma sample_profile_valid:
  "validateProfile sample_parse_ok sample_profile = None"
  by (simp add: validateProfile_eq sample_profile_no_violation)

lemma rejected_profile_invalid:
  "validateProfile sample_parse_ok rejected_profile =
     Some (errorString ''profile validation failed: invalid NSID: only social.shareframe.profile is allowed; displayName must be present; invalid datetime format for updatedAt'')"
  by (simp add: validateProfile_eq rejected_profile_violations)

lemma record_write_http_500:
  "updateProfileInATProtocol env_http_500 ''user123'' sample_profile ''token'' False [] =
     (('''', Some (errorString ''failed to update profile: 500 Internal Server Error'')),
      [ATProtocolPost sample_post,
       ATProtocolReturned (Some (errorString ''failed to update profile: 500 Internal Server Error''))])"
  by (simp add: updateProfileInATProtocol_def env_http_500_def sample_env_def sample_post_def
      Let_def)

lemma record_write_transport_fails:
  "updateProfileInATProtocol env_transport_fails ''user123'' sample_profile ''token'' False [] =
     (('''', Some (wrapError transport_failure_text
                     (errorString ''dial tcp 10.0.0.1:443: connect: connection refused''))),
      [ATProtocolPost sample_post,
       ATProtocolReturned (Some (wrapError transport_failure_text
                     (errorString ''dial tcp 10.0.0.1:443: connect: connection refused'')))])"
  by (simp add: updateProfileInATProtocol_def env_transport_fails_def sample_env_def sample_post_def
      url_Error_def transport_failure_text_def)

lemma record_write_ok:
  "updateProfileInATProtocol sample_env ''user123'' sample_profile ''token'' False [] =
     ((''Profile successfully updated'', None), [ATProtocolPost sample_post, ATProtocolReturned None])"
  by (simp add: updateProfileInATProtocol_def sample_env_def sample_post_def)

lemma HandleRequest_http_500:
  "HandleRequest env_http_500 sample_request =
     ([''error'' \<mapsto> ''failed to update profile: 500 Internal Server Error''], None,
      [ATProtocolPost sample_post,
       ATProtocolReturned (Some (errorString ''failed to update profile: 500 Internal Server Error''))])"
proof -
  have "HandleRequest env_http_500 sample_request =
     ([''error'' \<mapsto> Error (errorString ''failed to update profile: 500 Internal Server Error'')], None,
      [ATProtocolPost sample_post,
       ATProtocolReturned (Some (errorString ''failed to update profile: 500 Internal Server Error''))])"
  proof (rule HandleRequest_record_fails)
    show "config_LoadDefaultConfig env_http_500 = None"
      by (simp add: env_http_500_def sample_env_def)
    show "validateProfile (time_Parse_RFC3339 env_http_500) (Profile sample_request) = None"
      by (simp add: env_http_500_def sample_env_def sample_request_def sample_profile_valid)
    show "updateProfileInATProtocol env_http_500 (Repo sample_request) (Profile sample_request)
            (BearerToken sample_request) False [] =
          (('''', Some (errorString ''failed to update profile: 500 Internal Server Error'')),
           [ATProtocolPost sample_post,
            ATProtocolReturned (Some (errorString ''failed to update profile: 500 Internal Server Error''))])"
      by (simp add: sample_request_def record_write_http_500)
  qed
  then show ?thesis by simp
qed

lemma HandleRequest_transport_fails:
  "HandleRequest env_transport_fails sample_request =
     ([''error'' \<mapsto> transport_failure_text], None,
      [ATProtocolPost sample_post,
       ATProtocolReturned (Some (wrapError transport_failure_text
                     (errorString ''dial tcp 10.0.0.1:443: connect: connection refused'')))])"
proof -
  have "HandleRequest env_transport_fails sample_request =
     ([''error'' \<mapsto> Error (wrapError transport_failure_text
                     (errorString ''dial tcp 10.0.0.1:443: connect: connection refused''))], None,
      [ATProtocolPost sample_post,
       ATProtocolReturned (Some (wrapError transport_failure_text
                     (errorString ''dial tcp 10.0.0.1:443: connect: connection refused'')))])"
  proof (rule HandleRequest_record_fails)
    show "config_LoadDefaultConfig env_transport_fails = None"
      by (simp add: env_transport_fails_def sample_env_def)
    show "validateProfile (time_Parse_RFC3339 env_transport_fails) (Profile sample_request) = None"
      by (simp add: env_transport_fails_def sample_env_def sample_request_def sample_profile_valid)
    show "updateProfileInATProtocol env_transport_fails (Repo sample_request) (Profile sample_request)
            (BearerToken sample_request) False [] =
          (('''', Some (wrapError transport_failure_text
                     (errorString ''dial tcp 10.0.0.1:443: connect: connection refused''))),
           [ATProtocolPost sample_post,
            ATProtocolReturned (Some (wrapError transport_failure_text
                     (errorString ''dial tcp 10.0.0.1:443: connect: connection refused'')))])"
      by (simp add: sample_request_def record_write_transport_fails)
  qed
  then show ?thesis by simp
qed

text \<open>
  Claim C1, evaluated on the code. The sample profile passes validation. When the record
  service answers 500, and when the POST fails in transport, \<open>HandleRequest\<close> returns a
  nil invocation-level error, and the payload carries the text of the internal error.
\<close>

theorem record_failure_returns_nil_error:
  "validateProfile (time_Parse_RFC3339 env_http_500) (Profile sample_request) = None \<and>
   result_payload (HandleRequest env_http_500 sample_request) =
     [''error'' \<mapsto> ''failed to update profile: 500 Internal Server Error''] \<and>
   result_error (HandleRequest env_http_500 sample_request) = None \<and>
   result_payload (HandleRequest env_transport_fails sample_request) =
     [''error'' \<mapsto> transport_failure_text] \<and>
   result_error (HandleRequest env_transport_fails sample_request) = None"
proof -
  have "validateProfile (time_Parse_RFC3339 env_http_500) (Profile sample_request) = None"
    by (simp add: env_http_500_def sample_env_def sample_request_def sample_profile_valid)
  then show ?thesis
    by (simp add: HandleRequest_http_500 HandleRequest_transport_fails result_payload_def
        result_error_def)
qed

lemma card_sample_profile:
  "card (dom (snd (buildUpdateExpression rev sample_now sample_profile))) = 8"
  using card_bindings [OF visits_each_once_rev [of sample_profile], of sample_now]
  by (simp add: populated_def fields_map_def sample_profile_def)

lemma store_write_sample:
  "\<exists>input. UpdateUserInDynamoDB \<lparr>Client = dynamodb_UpdateItem sample_env\<rparr> sample_env ''user123''
      sample_profile tr = (None, tr @ [DynamoInvoked ''user123'', DynamoUpdateItem input])"
proof -
  obtain e v where b: "buildUpdateExpression rev sample_now sample_profile = (e, v)"
    by (metis surj_pair)
  with card_sample_profile have "card (dom v) = 8" by simp
  with b show ?thesis
    by (simp add: UpdateUserInDynamoDB_def sample_env_def Let_def)
qed

lemma trace_sample:
  "\<exists>input. result_trace (HandleRequest sample_env sample_request) =
     [ATProtocolPost sample_post, ATProtocolReturned None, DynamoInvoked ''user123'',
      DynamoUpdateItem input]"
proof -
  obtain input where
    db: "UpdateUserInDynamoDB \<lparr>Client = dynamodb_UpdateItem sample_env\<rparr> sample_env ''user123''
      sample_profile [ATProtocolPost sample_post, ATProtocolReturned None] =
        (None, [ATProtocolPost sample_post, ATProtocolReturned None] @
               [DynamoInvoked ''user123'', DynamoUpdateItem input])"
    using store_write_sample by blast
  have "result_trace (HandleRequest sample_env sample_request) =
      [ATProtocolPost sample_post, ATProtocolReturned None] @
               [DynamoInvoked ''user123'', DynamoUpdateItem input]"
  proof (rule HandleRequest_record_ok(1))
    show "config_LoadDefaultConfig sample_env = None"
      by (simp add: sample_env_def)
    show "validateProfile (time_Parse_RFC3339 sample_env) (Profile sample_request) = None"
      by (simp add: sample_env_def sample_request_def sample_profile_valid)
    show "updateProfileInATProtocol sample_env (Repo sample_request) (Profile sample_request)
            (BearerToken sample_request) False [] =
          ((''Profile successfully updated'', None),
           [ATProtocolPost sample_post, ATProtocolReturned None])"
      by (simp add: sample_request_def record_write_ok)
    show "UpdateUserInDynamoDB \<lparr>Client = dynamodb_UpdateItem sample_env\<rparr> sample_env
            (Repo sample_request) (Profile sample_request)
            [ATProtocolPost sample_post, ATProtocolReturned None] =
          (None, [ATProtocolPost sample_post, ATProtocolReturned None] @
               [DynamoInvoked ''user123'', DynamoUpdateItem input])"
      using db by (simp add: sample_request_def)
  qed
  then show ?thesis by simp
qed

text \<open>
  Claim C2 at the sample request: when every collaborator succeeds, and when the record
  service answers 500.
\<close>

theorem record_write_before_store_write_witness:
  "2 < length (result_trace (HandleRequest sample_env sample_request)) \<and>
   is_store_event (result_trace (HandleRequest sample_env sample_request) ! 2) \<and>
   (\<exists>j < 2. result_trace (HandleRequest sample_env sample_request) ! j = ATProtocolReturned None) \<and>
   ATProtocolReturned (Some (errorString ''failed to update profile: 500 Internal Server Error''))
     \<in> set (result_trace (HandleRequest env_http_500 sample_request)) \<and>
   list_all (\<lambda>ev. \<not> is_store_event ev) (result_trace (HandleRequest env_http_500 sample_request))"
proof -
  obtain input where t: "result_trace (HandleRequest sample_env sample_request) =
     [ATProtocolPost sample_post, ATProtocolReturned None, DynamoInvoked ''user123'',
      DynamoUpdateItem input]"
    using trace_sample by blast
  have l: "2 < length (result_trace (HandleRequest sample_env sample_request))"
    and s: "is_store_event (result_trace (HandleRequest sample_env sample_request) ! 2)"
    by (simp_all add: t)
  have m: "ATProtocolReturned (Some (errorString ''failed to update profile: 500 Internal Server Error''))
     \<in> set (result_trace (HandleRequest env_http_500 sample_request))"
    by (simp add: HandleRequest_http_500 result_trace_def)
  from record_write_before_store_write [of sample_env sample_request] l s
  have 1: "\<exists>j < 2. result_trace (HandleRequest sample_env sample_request) ! j = ATProtocolReturned None"
    by blast
  from record_write_before_store_write [of env_http_500 sample_request] m
  have "\<forall>ev \<in> set (result_trace (HandleRequest env_http_500 sample_request)). \<not> is_store_event ev"
    by blast
  then have 2: "list_all (\<lambda>ev. \<not> is_store_event ev) (result_trace (HandleRequest env_http_500 sample_request))"
    by (simp add: list_all_iff)
  from l s 1 m 2 show ?thesis by blast
qed

text \<open>
  Claim C7. For every request whose profile fails validation (the validator runs once the
  store client has been constructed), \<open>HandleRequest\<close> returns a failure payload, the
  validation message under \<open>error\<close>, and a nil invocation-level error, and neither the
  record-service write nor the secondary-store write is performed: the trace is empty.
\<close>

theorem validation_failure_no_writes:
  assumes "config_LoadDefaultConfig env = None"
    and "validateProfile (time_Parse_RFC3339 env) (Profile request) = Some err"
  shows "result_payload (HandleRequest env request) = [''error'' \<mapsto> Error err] \<and>
         result_error (HandleRequest env request) = None \<and>
         result_trace (HandleRequest env request) = []"
  using HandleRequest_invalid [OF assms]
  by (simp add: result_payload_def result_error_def result_trace_def)

text \<open>Claim C7 at the rejected request, with the sample environment.\<close>

theorem validation_failure_no_writes_witness:
  "config_LoadDefaultConfig sample_env = None \<and>
   validateProfile (time_Parse_RFC3339 sample_env) (Profile rejected_request) =
     Some (errorString ''profile validation failed: invalid NSID: only social.shareframe.profile is allowed; displayName must be present; invalid datetime format for updatedAt'') \<and>
   result_payload (HandleRequest sample_env rejected_request) =
     [''error'' \<mapsto> ''profile validation failed: invalid NSID: only social.shareframe.profile is allowed; displayName must be present; invalid datetime format for updatedAt''] \<and>
   result_error (HandleRequest sample_env rejected_request) = None \<and>
   result_trace (HandleRequest sample_env rejected_request) = []"
proof -
  have c: "config_LoadDefaultConfig sample_env = None"
    by (simp add: sample_env_def)
  have v: "validateProfile (time_Parse_RFC3339 sample_env) (Profile rejected_request) =
     Some (errorString ''profile validation failed: invalid NSID: only social.shareframe.profile is allowed; displayName must be present; invalid datetime format for updatedAt'')"
    by (simp add: sample_env_def rejected_request_def sample_request_def rejected_profile_invalid)
  from validation_failure_no_writes [OF c v] c v show ?thesis by simp
qed

end
